theory Spec2Isabelle
  imports Complex_Main
begin

section \<open>JavaScript values used by the pipeline\<close>

text \<open>
  A JavaScript \<open>number\<close>. The classes modelled here never do arithmetic on numbers: they
  compare them (\<open>>=\<close>), test them for truthiness (\<open>||\<close>) and pass them to \<open>slice\<close>. Those
  operations are exact on doubles, so a finite double is represented by the real number it
  denotes, next to the three special values.
\<close>

datatype jsnum = NaN | NegInfinity | Num real | PosInfinity

text \<open>\<open>a >= b\<close>: false as soon as one side is \<open>NaN\<close>.\<close>

fun js_ge :: "jsnum \<Rightarrow> jsnum \<Rightarrow> bool" where
  "js_ge NaN b = False"
| "js_ge a NaN = False"
| "js_ge PosInfinity b = True"
| "js_ge a NegInfinity = True"
| "js_ge NegInfinity b = False"
| "js_ge a PosInfinity = False"
| "js_ge (Num a) (Num b) = (b \<le> a)"

text \<open>\<open>a < b\<close>: false as soon as one side is \<open>NaN\<close>.\<close>

fun js_lt :: "jsnum \<Rightarrow> jsnum \<Rightarrow> bool" where
  "js_lt NaN b = False"
| "js_lt a NaN = False"
| "js_lt PosInfinity b = False"
| "js_lt a NegInfinity = False"
| "js_lt NegInfinity b = True"
| "js_lt a PosInfinity = True"
| "js_lt (Num a) (Num b) = (a < b)"

text \<open>Truthiness of a number: \<open>0\<close>, \<open>-0\<close> and \<open>NaN\<close> are falsy.\<close>

fun js_truthy :: "jsnum \<Rightarrow> bool" where
  "js_truthy NaN = False"
| "js_truthy (Num r) = (r \<noteq> 0)"
| "js_truthy NegInfinity = True"
| "js_truthy PosInfinity = True"

text \<open>\<open>x || d\<close> for an optional number \<open>x\<close> (\<open>None\<close> is \<open>undefined\<close>).\<close>

fun or_default :: "jsnum option \<Rightarrow> jsnum \<Rightarrow> jsnum" where
  "or_default None d = d"
| "or_default (Some n) d = (if js_truthy n then n else d)"

text \<open>\<open>xs[i]\<close>: \<open>undefined\<close> out of range.\<close>

definition at_index :: "'a list \<Rightarrow> nat \<Rightarrow> 'a option" where
  "at_index xs i = (if i < length xs then Some (xs ! i) else None)"

text \<open>
  \<open>ToIntegerOrInfinity\<close> and \<open>Array.prototype.slice(0, end)\<close> as ECMAScript defines them:
  the end is truncated toward zero, a negative end counts from the back, and the result is
  clamped to the array.
\<close>

datatype int_or_inf = MinusInf | Fin int | PlusInf

fun ToIntegerOrInfinity :: "jsnum \<Rightarrow> int_or_inf" where
  "ToIntegerOrInfinity NaN = Fin 0"
| "ToIntegerOrInfinity PosInfinity = PlusInf"
| "ToIntegerOrInfinity NegInfinity = MinusInf"
| "ToIntegerOrInfinity (Num r) = Fin (if 0 \<le> r then \<lfloor>r\<rfloor> else \<lceil>r\<rceil>)"

definition slice0 :: "'a list \<Rightarrow> jsnum \<Rightarrow> 'a list" where
  "slice0 xs end_arg =
     (let len = int (length xs);
          final = (case ToIntegerOrInfinity end_arg of
                     MinusInf \<Rightarrow> 0
                   | PlusInf \<Rightarrow> len
                   | Fin e \<Rightarrow> if e < 0 then max (len + e) 0 else min e len)
      in take (nat final) xs)"

text \<open>
  \<open>Array.prototype.join\<close> on an array of strings: the loop of the language definition, with
  its index \<open>k\<close> and its accumulator \<open>R\<close>.
\<close>

fun join_loop :: "string \<Rightarrow> string list \<Rightarrow> nat \<Rightarrow> string \<Rightarrow> string" where
  "join_loop sep [] k R = R"
| "join_loop sep (x # xs) k R = join_loop sep xs (Suc k) ((if 0 < k then R @ sep else R) @ x)"

definition join :: "string list \<Rightarrow> string \<Rightarrow> string" where
  "join xs sep = join_loop sep xs 0 ''''"

text \<open>
  A JavaScript \<open>Map\<close>: entries in insertion order; \<open>set\<close> on a key that is present replaces
  the value where the entry stands, on a new key appends an entry.
\<close>

type_synonym ('k, 'v) jsmap = "('k \<times> 'v) list"

definition Map_new :: "('k, 'v) jsmap" where
  "Map_new = []"

fun Map_set :: "'k \<Rightarrow> 'v \<Rightarrow> ('k, 'v) jsmap \<Rightarrow> ('k, 'v) jsmap" where
  "Map_set k v [] = [(k, v)]"
| "Map_set k v (e # m) = (if fst e = k then (k, v) # m else e # Map_set k v m)"

definition Map_values :: "('k, 'v) jsmap \<Rightarrow> 'v list" where
  "Map_values m = map snd m"

definition Map_get :: "('k, 'v) jsmap \<Rightarrow> 'k \<Rightarrow> 'v option" where
  "Map_get m k = map_of m k"

text \<open>A thrown \<open>Error\<close> with its message; a rejected promise is the same value.\<close>

datatype error = Error string

section \<open>data-loader.ts: documents\<close>

text \<open>
  \<open>RagDocument\<close>. The field \<open>id\<close> is \<open>doc_id\<close> here. \<open>metadata\<close> is an opaque
  \<open>Record<string, any>\<close> that the classes only pass through; its values are kept as text.
\<close>

type_synonym metadata = "(string \<times> string) list"

record RagDocument =
  doc_id :: string
  content :: string
  metadata :: "metadata option"
  embedding :: "jsnum list option"
  similarity :: "jsnum option"

text \<open>
  Documents are objects: callers, the argument array and the in-memory store hold references
  to them, and \<open>addDocuments\<close> writes to them. A reference is an address of the heap.
\<close>

type_synonym ref = nat

type_synonym heap = "ref \<Rightarrow> RagDocument"

section \<open>vector-store.ts\<close>

text \<open>
  \<open>EmbeddingModel\<close>: an external provider. One call either rejects or resolves to an array
  of vectors, whose length the interface does not constrain.
\<close>

record EmbeddingModel =
  name :: string
  dimensions :: "jsnum option"
  generateEmbeddings :: "string list \<Rightarrow> error + jsnum list list"

record AstraDBStoreConfig =
  token :: string
  endpoint :: string
  collectionName :: string
  keyspace :: string
  embeddingDimension :: jsnum

datatype VectorStoreConfig = in_memory | datastax_astra AstraDBStoreConfig

text \<open>The record sent to \<open>insertMany\<close>: \<open>_id\<close>, \<open>text\<close>, \<open>$vector\<close>, \<open>metadata\<close>.\<close>

record AstraDoc =
  astra_id :: string
  astra_text :: string
  astra_vector :: "jsnum list option"
  astra_metadata :: "metadata option"

text \<open>A row of a vector search: \<open>_id\<close>, \<open>text\<close>, \<open>$vector\<close>, \<open>metadata\<close>, \<open>$similarity\<close>.\<close>

record AstraRow =
  row_id :: string
  row_text :: string
  row_vector :: "jsnum list option"
  row_metadata :: "metadata option"
  row_similarity :: "jsnum option"

text \<open>
  The remote collection, external to the repository: \<open>insertMany\<close>, and the search
  \<open>find({}, {sort: {$vector: q}, limit: topK, includeSimilarity: true}).toArray()\<close>.
\<close>

record AstraCollection =
  insertMany :: "AstraDoc list \<Rightarrow> error + unit"
  find_toArray :: "jsnum list \<Rightarrow> jsnum \<Rightarrow> error + AstraRow list"

record VectorStore =
  config :: VectorStoreConfig
  embeddingModel :: EmbeddingModel
  inMemoryStore :: "(string, ref) jsmap option"
  astraCollection :: "AstraCollection option"

text \<open>
  The constructor. \<open>connect\<close> stands for the Astra client library and \<open>placeholder\<close> for
  a \<open>PlaceholderEmbeddingModel\<close> (which draws random vectors).
\<close>

definition VectorStore_new ::
  "(AstraDBStoreConfig \<Rightarrow> error + AstraCollection) \<Rightarrow> EmbeddingModel \<Rightarrow>
   VectorStoreConfig \<Rightarrow> EmbeddingModel option \<Rightarrow> error + VectorStore" where
  "VectorStore_new connect placeholder cfg model =
     (let this = \<lparr>config = cfg,
                  embeddingModel = (case model of Some m \<Rightarrow> m | None \<Rightarrow> placeholder),
                  inMemoryStore = None, astraCollection = None\<rparr>
      in case cfg of
           in_memory \<Rightarrow> Inr (this\<lparr>inMemoryStore := Some Map_new\<rparr>)
         | datastax_astra c \<Rightarrow>
             (case connect c of
                Inl (Error msg) \<Rightarrow> Inl (Error (''AstraDB client initialization failed: '' @ msg))
              | Inr coll \<Rightarrow> Inr (this\<lparr>astraCollection := Some coll\<rparr>)))"

text \<open>
  The state the methods act on: the heap of documents, the vector store object, and a log
  of every call made to an external collaborator, in call order (what a call-counting stub
  would record).
\<close>

record State =
  heap :: heap
  vectorStore :: VectorStore
  embed_calls :: "string list list"
  insertMany_calls :: "AstraDoc list list"
  find_calls :: "(jsnum list \<times> jsnum) list"
  generate_calls :: "string list"

text \<open>
  \<open>docsToEmbed.forEach((doc, index) => { doc.embedding = embeddings[index]; })\<close>: a write
  to each object in turn.
\<close>

fun forEach_assign :: "ref list \<Rightarrow> nat \<Rightarrow> jsnum list list \<Rightarrow> heap \<Rightarrow> heap" where
  "forEach_assign [] index embeddings h = h"
| "forEach_assign (doc # docs) index embeddings h =
     forEach_assign docs (Suc index) embeddings
       (h(doc := (h doc)\<lparr>embedding := at_index embeddings index\<rparr>))"

text \<open>
  \<open>documents.filter(doc => !doc.embedding && doc.content)\<close>: an array is truthy even when
  empty, so \<open>!doc.embedding\<close> holds exactly when the field is \<open>undefined\<close>; a string is
  truthy unless empty.
\<close>

definition docsToEmbed :: "heap \<Rightarrow> ref list \<Rightarrow> ref list" where
  "docsToEmbed h documents =
     filter (\<lambda>doc. embedding (h doc) = None \<and> content (h doc) \<noteq> '''') documents"

text \<open>Lines 139 to 147 of \<open>addDocuments\<close>: the batch embedding.\<close>

definition embed_missing :: "ref list \<Rightarrow> State \<Rightarrow> (error + unit) \<times> State" where
  "embed_missing documents s =
     (let toEmbed = docsToEmbed (heap s) documents in
      if 0 < length toEmbed then
        (let contents = map (\<lambda>doc. content (heap s doc)) toEmbed;
             s1 = s\<lparr>embed_calls := embed_calls s @ [contents]\<rparr>
         in case generateEmbeddings (embeddingModel (vectorStore s)) contents of
              Inl e \<Rightarrow> (Inl e, s1)
            | Inr embeddings \<Rightarrow>
                (Inr (), s1\<lparr>heap := forEach_assign toEmbed 0 embeddings (heap s1)\<rparr>))
      else (Inr (), s))"

text \<open>
  \<open>for (const doc of documents) { if (doc.embedding) this.inMemoryStore.set(doc.id, doc); }\<close>
\<close>

fun store_all :: "heap \<Rightarrow> ref list \<Rightarrow> (string, ref) jsmap \<Rightarrow> (string, ref) jsmap" where
  "store_all h [] m = m"
| "store_all h (doc # docs) m =
     store_all h docs (if embedding (h doc) \<noteq> None then Map_set (doc_id (h doc)) doc m else m)"

definition toAstraDoc :: "RagDocument \<Rightarrow> AstraDoc" where
  "toAstraDoc doc =
     \<lparr>astra_id = doc_id doc, astra_text = content doc, astra_vector = embedding doc,
      astra_metadata = metadata doc\<rparr>"

text \<open>
  \<open>VectorStore.addDocuments\<close>. The loop of lines 149 to 154 only prints a warning and is
  left out, as is every other console output.
\<close>

definition addDocuments :: "ref list \<Rightarrow> State \<Rightarrow> (error + unit) \<times> State" where
  "addDocuments documents s =
     (if length documents = 0 then (Inr (), s)
      else case embed_missing documents s of
        (Inl e, s1) \<Rightarrow> (Inl e, s1)
      | (Inr u, s1) \<Rightarrow>
          (case config (vectorStore s1) of
             in_memory \<Rightarrow>
               (case inMemoryStore (vectorStore s1) of
                  None \<Rightarrow> (Inl (Error ''In-memory store not initialized.''), s1)
                | Some m \<Rightarrow>
                    (Inr (), s1\<lparr>vectorStore := (vectorStore s1)
                               \<lparr>inMemoryStore := Some (store_all (heap s1) documents m)\<rparr>\<rparr>))
           | datastax_astra c \<Rightarrow>
               (case astraCollection (vectorStore s1) of
                  None \<Rightarrow> (Inl (Error ''AstraDB collection not initialized.''), s1)
                | Some coll \<Rightarrow>
                    (let astraDocs =
                           map (\<lambda>doc. toAstraDoc (heap s1 doc))
                             (filter (\<lambda>doc. embedding (heap s1 doc) \<noteq> None) documents)
                     in if 0 < length astraDocs then
                          (let s2 = s1\<lparr>insertMany_calls := insertMany_calls s1 @ [astraDocs]\<rparr>
                           in case insertMany coll astraDocs of
                                Inl e \<Rightarrow> (Inl e, s2)
                              | Inr r \<Rightarrow> (Inr (), s2))
                        else (Inr (), s1)))))"

definition fromAstraRow :: "AstraRow \<Rightarrow> RagDocument" where
  "fromAstraRow astraDoc =
     \<lparr>doc_id = row_id astraDoc, content = row_text astraDoc, metadata = row_metadata astraDoc,
      embedding = row_vector astraDoc, similarity = row_similarity astraDoc\<rparr>"

text \<open>
  \<open>VectorStore.similaritySearch\<close>. The in-memory branch returns the stored objects
  themselves and the remote branch fresh objects; the result is given as the documents'
  values when the method returns.
\<close>

definition similaritySearch ::
  "jsnum list \<Rightarrow> jsnum \<Rightarrow> State \<Rightarrow> (error + RagDocument list) \<times> State" where
  "similaritySearch queryEmbedding topK_arg s =
     (case config (vectorStore s) of
        in_memory \<Rightarrow>
          (case inMemoryStore (vectorStore s) of
             None \<Rightarrow> (Inl (Error ''In-memory store not initialized.''), s)
           | Some m \<Rightarrow>
               (let allDocs = Map_values m
                in (Inr (map (heap s) (slice0 allDocs topK_arg)), s)))
      | datastax_astra c \<Rightarrow>
          (case astraCollection (vectorStore s) of
             None \<Rightarrow> (Inl (Error ''AstraDB collection not initialized.''), s)
           | Some coll \<Rightarrow>
               (let s1 = s\<lparr>find_calls := find_calls s @ [(queryEmbedding, topK_arg)]\<rparr>
                in case find_toArray coll queryEmbedding topK_arg of
                     Inl e \<Rightarrow> (Inl e, s1)
                   | Inr astraResults \<Rightarrow> (Inr (map fromAstraRow astraResults), s1))))"

section \<open>retriever.ts\<close>

text \<open>
  \<open>RetrieverConfig\<close> and \<open>Retriever\<close>. The \<open>vectorStore\<close> both refer to is the store
  object of the state.
\<close>

record RetrieverConfig =
  cfg_embeddingModel :: EmbeddingModel
  cfg_topK :: "jsnum option"
  cfg_similarityThreshold :: "jsnum option"

record Retriever =
  embeddingModel_r :: EmbeddingModel
  topK :: jsnum
  similarityThreshold :: jsnum

definition Retriever_new :: "RetrieverConfig \<Rightarrow> Retriever" where
  "Retriever_new cfg =
     \<lparr>embeddingModel_r = cfg_embeddingModel cfg,
      topK = or_default (cfg_topK cfg) (Num 5),
      similarityThreshold = or_default (cfg_similarityThreshold cfg) (Num 0.7)\<rparr>"

text \<open>The callback of \<open>retrievedDocuments.filter\<close>.\<close>

definition isRelevant :: "jsnum \<Rightarrow> RagDocument \<Rightarrow> bool" where
  "isRelevant threshold doc =
     (case similarity doc of
        Some sim \<Rightarrow> js_ge sim threshold
      | None \<Rightarrow> True)"

text \<open>
  \<open>Retriever.retrieve\<close>. \<open>const [queryEmbedding] = await ...\<close> takes the first element of
  the resolved array, \<open>undefined\<close> when it is empty; a rejection is not caught.
\<close>

definition retrieve :: "Retriever \<Rightarrow> string \<Rightarrow> State \<Rightarrow> (error + RagDocument list) \<times> State" where
  "retrieve this query_arg s =
     (let s1 = s\<lparr>embed_calls := embed_calls s @ [[query_arg]]\<rparr>
      in case generateEmbeddings (embeddingModel_r this) [query_arg] of
           Inl e \<Rightarrow> (Inl e, s1)
         | Inr [] \<Rightarrow> (Inr [], s1)
         | Inr (queryEmbedding # rest) \<Rightarrow>
             (case similaritySearch queryEmbedding (topK this) s1 of
                (Inl e, s2) \<Rightarrow> (Inl e, s2)
              | (Inr retrievedDocuments, s2) \<Rightarrow>
                  (Inr (filter (isRelevant (similarityThreshold this)) retrievedDocuments), s2)))"

definition formatContext :: "RagDocument list \<Rightarrow> string" where
  "formatContext documents =
     join (map content documents) ''\<newline>\<newline>---\<newline>\<newline>''"

section \<open>llm.ts and pipeline.ts\<close>

record TokenUsage =
  promptTokens :: "jsnum option"
  completionTokens :: "jsnum option"
  totalTokens :: "jsnum option"

text \<open>
  The \<open>metadata\<close> of a response (the raw \<open>providerResponse\<close> is left out) and
  \<open>LLMResponse\<close>, whose field \<open>text\<close> is \<open>response_text\<close> here.
\<close>

record ResponseMetadata =
  finishReason :: "string option"
  tokenUsage :: "TokenUsage option"

record LLMResponse =
  response_text :: string
  sourceDocuments :: "RagDocument list option"
  response_metadata :: "ResponseMetadata option"

text \<open>\<open>LLM\<close>: the generator, an external provider behind \<open>generate\<close>.\<close>

record LLM =
  generate :: "string \<Rightarrow> error + LLMResponse"

record RAGPipelineConfig =
  cfg_retrieverEmbeddingModel :: EmbeddingModel
  cfg_llm :: LLM
  cfg_retrieverTopK :: "jsnum option"
  cfg_retrieverSimilarityThreshold :: "jsnum option"
  cfg_promptTemplate :: "(string \<Rightarrow> string \<Rightarrow> string) option"

record RAGPipeline =
  retriever :: Retriever
  llm :: LLM
  promptTemplate :: "string \<Rightarrow> string \<Rightarrow> string"

definition defaultPromptTemplate :: "string \<Rightarrow> string \<Rightarrow> string" where
  "defaultPromptTemplate context_arg query_arg =
     ''Context information is provided below.\<newline>---------------------\<newline>'' @ context_arg @
     ''\<newline>---------------------\<newline>Given the context information and not prior knowledge, answer the query.\<newline>Query: '' @
     query_arg @ ''\<newline>Answer:''"

definition RAGPipeline_new :: "RAGPipelineConfig \<Rightarrow> RAGPipeline" where
  "RAGPipeline_new cfg =
     \<lparr>retriever = Retriever_new
        \<lparr>cfg_embeddingModel = cfg_retrieverEmbeddingModel cfg,
         cfg_topK = cfg_retrieverTopK cfg,
         cfg_similarityThreshold = Some (or_default (cfg_retrieverSimilarityThreshold cfg) (Num 0.7))\<rparr>,
      llm = cfg_llm cfg,
      promptTemplate = (case cfg_promptTemplate cfg of Some f \<Rightarrow> f | None \<Rightarrow> defaultPromptTemplate)\<rparr>"

definition no_context_response :: LLMResponse where
  "no_context_response =
     \<lparr>response_text = ''I couldn't find any specific information related to your query in my current knowledge base.'',
      sourceDocuments = Some [],
      response_metadata = Some \<lparr>finishReason = Some ''no_context'', tokenUsage = None\<rparr>\<rparr>"

text \<open>\<open>RAGPipeline.query\<close>.\<close>

definition query :: "RAGPipeline \<Rightarrow> string \<Rightarrow> State \<Rightarrow> (error + LLMResponse) \<times> State" where
  "query this query_arg s =
     (case retrieve (retriever this) query_arg s of
        (Inl e, s1) \<Rightarrow> (Inl e, s1)
      | (Inr relevantDocuments, s1) \<Rightarrow>
          if length relevantDocuments = 0 then (Inr no_context_response, s1)
          else
            (let context_str = formatContext relevantDocuments;
                 fullPrompt = promptTemplate this context_str query_arg;
                 s2 = s1\<lparr>generate_calls := generate_calls s1 @ [fullPrompt]\<rparr>
             in case generate (llm this) fullPrompt of
                  Inl e \<Rightarrow> (Inl e, s2)
                | Inr llmResponse \<Rightarrow>
                    (Inr (llmResponse\<lparr>sourceDocuments := Some relevantDocuments\<rparr>), s2)))"

section \<open>The specification's wording\<close>

text \<open>
  The contents joined with a separator, as the specification words it: nothing for no
  document, the content alone for one, and otherwise the first content, the separator and
  the rest joined.
\<close>

fun spec_joined :: "string \<Rightarrow> string list \<Rightarrow> string" where
  "spec_joined sep [] = ''''"
| "spec_joined sep [x] = x"
| "spec_joined sep (x # y # ys) = x @ sep @ spec_joined sep (y # ys)"

text \<open>
  Modelled from the spec: the cosine similarity that the specification requires of the
  in-memory search. The source has no such function; this one measures what the search
  returns.
\<close>

definition dot :: "real list \<Rightarrow> real list \<Rightarrow> real" where
  "dot a b = sum_list (map2 (*) a b)"

definition spec_cosine :: "real list \<Rightarrow> real list \<Rightarrow> real" where
  "spec_cosine a b = dot a b / (sqrt (dot a a) * sqrt (dot b b))"

section \<open>Example values\<close>

text \<open>Stub collaborators and small stores, on which the theorems below are instantiated.\<close>

definition stub_model :: EmbeddingModel where
  "stub_model =
     \<lparr>name = ''stub'', dimensions = Some (Num 2),
      generateEmbeddings = (\<lambda>texts. Inr (map (\<lambda>t. [Num (real (length t)), Num 1]) texts))\<rparr>"

definition failing_model :: EmbeddingModel where
  "failing_model =
     \<lparr>name = ''failing'', dimensions = None,
      generateEmbeddings = (\<lambda>texts. Inl (Error ''429 rate limit''))\<rparr>"

definition empty_model :: EmbeddingModel where
  "empty_model =
     \<lparr>name = ''empty'', dimensions = None, generateEmbeddings = (\<lambda>texts. Inr [])\<rparr>"

definition blank_doc :: RagDocument where
  "blank_doc = \<lparr>doc_id = '''', content = '''', metadata = None, embedding = None, similarity = None\<rparr>"

definition doc_east :: RagDocument where
  "doc_east = \<lparr>doc_id = ''east'', content = ''sunrise'', metadata = None,
               embedding = Some [Num 1, Num 0], similarity = None\<rparr>"

definition doc_north :: RagDocument where
  "doc_north = \<lparr>doc_id = ''north'', content = ''pole star'', metadata = None,
                embedding = Some [Num 0, Num 1], similarity = None\<rparr>"

definition memory_store :: VectorStore where
  "memory_store =
     \<lparr>config = in_memory, embeddingModel = stub_model, inMemoryStore = Some Map_new,
      astraCollection = None\<rparr>"

definition fresh_state :: "heap \<Rightarrow> VectorStore \<Rightarrow> State" where
  "fresh_state h vs =
     \<lparr>heap = h, vectorStore = vs, embed_calls = [], insertMany_calls = [], find_calls = [],
      generate_calls = []\<rparr>"

definition compass_state :: State where
  "compass_state =
     snd (addDocuments [10, 11] (fresh_state ((\<lambda>r. blank_doc)(10 := doc_east, 11 := doc_north)) memory_store))"

definition scored_rows :: "AstraRow list" where
  "scored_rows =
     [\<lparr>row_id = ''a'', row_text = ''alpha'', row_vector = None, row_metadata = None,
       row_similarity = Some (Num 0.9)\<rparr>,
      \<lparr>row_id = ''b'', row_text = ''beta'', row_vector = None, row_metadata = None,
       row_similarity = Some (Num 0.7)\<rparr>,
      \<lparr>row_id = ''c'', row_text = ''gamma'', row_vector = None, row_metadata = None,
       row_similarity = Some (Num 0.5)\<rparr>,
      \<lparr>row_id = ''d'', row_text = ''delta'', row_vector = None, row_metadata = None,
       row_similarity = None\<rparr>]"

definition astra_store :: VectorStore where
  "astra_store =
     \<lparr>config = datastax_astra \<lparr>token = ''t'', endpoint = ''e'', collectionName = ''c'',
                                keyspace = ''k'', embeddingDimension = Num 2\<rparr>,
      embeddingModel = stub_model, inMemoryStore = None,
      astraCollection = Some \<lparr>insertMany = (\<lambda>docs. Inr ()),
                               find_toArray = (\<lambda>q k. Inr scored_rows)\<rparr>\<rparr>"

definition stub_llm :: LLM where
  "stub_llm =
     \<lparr>generate = (\<lambda>prompt. Inr \<lparr>response_text = ''answer'', sourceDocuments = None,
                                   response_metadata = None\<rparr>)\<rparr>"

definition pipeline_config :: "jsnum option \<Rightarrow> jsnum option \<Rightarrow> RAGPipelineConfig" where
  "pipeline_config k t =
     \<lparr>cfg_retrieverEmbeddingModel = stub_model, cfg_llm = stub_llm, cfg_retrieverTopK = k,
      cfg_retrieverSimilarityThreshold = t, cfg_promptTemplate = None\<rparr>"

definition retriever_config :: "EmbeddingModel \<Rightarrow> jsnum option \<Rightarrow> jsnum option \<Rightarrow> RetrieverConfig" where
  "retriever_config em k t =
     \<lparr>cfg_embeddingModel = em, cfg_topK = k, cfg_similarityThreshold = t\<rparr>"

definition astra_state :: State where
  "astra_state = fresh_state (\<lambda>r. blank_doc) astra_store"

definition empty_memory_state :: State where
  "empty_memory_state = fresh_state (\<lambda>r. blank_doc) memory_store"

definition mixed_heap :: heap where
  "mixed_heap =
     (\<lambda>r. blank_doc)
       (20 := \<lparr>doc_id = ''a'', content = ''aa'', metadata = None, embedding = None, similarity = None\<rparr>,
        21 := \<lparr>doc_id = ''b'', content = [], metadata = None, embedding = None, similarity = None\<rparr>,
        22 := \<lparr>doc_id = ''c'', content = ''cccc'', metadata = None, embedding = None, similarity = None\<rparr>,
        23 := \<lparr>doc_id = ''d'', content = ''dd'', metadata = None, embedding = Some [Num 9, Num 9],
               similarity = None\<rparr>)"

definition mixed_state :: State where
  "mixed_state = fresh_state mixed_heap memory_store"

definition upsert_heap :: heap where
  "upsert_heap =
     (\<lambda>r. blank_doc)
       (30 := \<lparr>doc_id = ''x'', content = ''old'', metadata = None, embedding = None, similarity = None\<rparr>,
        31 := \<lparr>doc_id = ''x'', content = ''new'', metadata = None, embedding = Some [Num 7],
               similarity = None\<rparr>,
        32 := \<lparr>doc_id = ''y'', content = ''other'', metadata = None, embedding = Some [Num 8],
               similarity = None\<rparr>)"

definition upsert_state_1 :: State where
  "upsert_state_1 = snd (addDocuments [30, 32] (fresh_state upsert_heap memory_store))"

definition upsert_state_2 :: State where
  "upsert_state_2 = snd (addDocuments [31] upsert_state_1)"

section \<open>Array.prototype.join and formatContext\<close>

lemma spec_joined_Cons:
  "xs \<noteq> [] \<Longrightarrow> spec_joined sep (x # xs) = x @ sep @ spec_joined sep xs"
  by (cases xs) simp_all

lemma join_loop_spec_joined:
  "join_loop sep xs k R =
     (if xs = [] then R else (if 0 < k then R @ sep else R) @ spec_joined sep xs)"
proof (induction xs arbitrary: k R)
  case Nil
  show ?case by simp
next
  case (Cons x xs)
  let ?R' = "(if 0 < k then R @ sep else R) @ x"
  have step: "join_loop sep (x # xs) k R = join_loop sep xs (Suc k) ?R'"
    by simp
  show ?case
  proof (cases "xs = []")
    case True
    then show ?thesis by simp
  next
    case False
    have "join_loop sep xs (Suc k) ?R' = (?R' @ sep) @ spec_joined sep xs"
      using False by (simp only: Cons.IH [of "Suc k" ?R'] zero_less_Suc if_True if_False)
    then show ?thesis
      using False by (simp only: step spec_joined_Cons [OF False] append_assoc list.distinct if_False)
  qed
qed

lemma join_spec_joined: "join xs sep = spec_joined sep xs"
  by (cases xs) (simp_all add: join_def join_loop_spec_joined)

lemma length_spec_joined:
  "length (spec_joined sep xs) = sum_list (map length xs) + length sep * (length xs - 1)"
  by (induction sep xs rule: spec_joined.induct) simp_all

text \<open>
  C7. \<open>Retriever.formatContext\<close> returns the documents' contents joined with the separator
  of two newlines, three hyphens and two newlines: every content appears whole, in order and
  as often as its document does (the length is the sum of the contents' lengths plus seven
  characters per gap), and the empty sequence gives the empty string.
\<close>

theorem formatContext_joins_contents:
  "formatContext docs = spec_joined ''\<newline>\<newline>---\<newline>\<newline>'' (map content docs)
   \<and> formatContext [] = ''''
   \<and> length (formatContext docs) = sum_list (map (\<lambda>d. length (content d)) docs) + 7 * (length docs - 1)"
proof -
  have eq: "formatContext ds = spec_joined ''\<newline>\<newline>---\<newline>\<newline>'' (map content ds)" for ds
    by (simp add: formatContext_def join_spec_joined)
  have len: "length (formatContext docs) = sum_list (map (\<lambda>d. length (content d)) docs) + 7 * (length docs - 1)"
    by (simp add: eq length_spec_joined comp_def)
  show ?thesis using eq [of docs] eq [of "[]"] len by simp
qed

theorem formatContext_joins_contents_witness:
  "formatContext [\<lparr>doc_id = ''1'', content = ''a'', metadata = None, embedding = None, similarity = None\<rparr>,
                  \<lparr>doc_id = ''2'', content = ''b'', metadata = None, embedding = None, similarity = None\<rparr>,
                  \<lparr>doc_id = ''1'', content = ''a'', metadata = None, embedding = None, similarity = None\<rparr>]
     = ''a\<newline>\<newline>---\<newline>\<newline>b\<newline>\<newline>---\<newline>\<newline>a''"
  using formatContext_joins_contents
    [of "[\<lparr>doc_id = ''1'', content = ''a'', metadata = None, embedding = None, similarity = None\<rparr>,
          \<lparr>doc_id = ''2'', content = ''b'', metadata = None, embedding = None, similarity = None\<rparr>,
          \<lparr>doc_id = ''1'', content = ''a'', metadata = None, embedding = None, similarity = None\<rparr>]"]
  by simp

section \<open>VectorStore.addDocuments on an empty sequence\<close>

text \<open>
  C10. \<open>VectorStore.addDocuments\<close> called with an empty sequence returns at once: no call
  to \<open>generateEmbeddings\<close>, no storage operation, and the state is the one it was.
\<close>

theorem addDocuments_empty_noop:
  "addDocuments [] s = (Inr (), s)
   \<and> embed_calls (snd (addDocuments [] s)) = embed_calls s
   \<and> insertMany_calls (snd (addDocuments [] s)) = insertMany_calls s
   \<and> vectorStore (snd (addDocuments [] s)) = vectorStore s
   \<and> heap (snd (addDocuments [] s)) = heap s"
  by (simp add: addDocuments_def)

theorem addDocuments_empty_noop_witness:
  "addDocuments [] empty_memory_state = (Inr (), empty_memory_state)"
  using addDocuments_empty_noop [of empty_memory_state] by (rule conjunct1)

section \<open>Defaults of the retriever's tunables\<close>

text \<open>
  C8. A \<open>similarityThreshold\<close> of 0 and a \<open>topK\<close> of 0 are replaced by the defaults 0.7
  and 5, in \<open>Retriever\<close> and through \<open>RAGPipeline\<close> alike; every other threshold in
  \<open>(0, 1]\<close> and every \<open>topK\<close> of at least 1 is used as configured.
\<close>

theorem zero_config_replaced_by_default:
  "(cfg_similarityThreshold cfg = Some (Num 0) \<longrightarrow> similarityThreshold (Retriever_new cfg) = Num 0.7)
   \<and> (cfg_topK cfg = Some (Num 0) \<longrightarrow> topK (Retriever_new cfg) = Num 5)
   \<and> (\<forall>t. 0 < t \<and> t \<le> 1 \<and> cfg_similarityThreshold cfg = Some (Num t)
          \<longrightarrow> similarityThreshold (Retriever_new cfg) = Num t)
   \<and> (\<forall>k::nat. 1 \<le> k \<and> cfg_topK cfg = Some (Num (real k)) \<longrightarrow> topK (Retriever_new cfg) = Num (real k))
   \<and> (cfg_retrieverSimilarityThreshold pcfg = Some (Num 0)
          \<longrightarrow> similarityThreshold (retriever (RAGPipeline_new pcfg)) = Num 0.7)
   \<and> (cfg_retrieverTopK pcfg = Some (Num 0) \<longrightarrow> topK (retriever (RAGPipeline_new pcfg)) = Num 5)
   \<and> (\<forall>t. 0 < t \<and> t \<le> 1 \<and> cfg_retrieverSimilarityThreshold pcfg = Some (Num t)
          \<longrightarrow> similarityThreshold (retriever (RAGPipeline_new pcfg)) = Num t)
   \<and> (\<forall>k::nat. 1 \<le> k \<and> cfg_retrieverTopK pcfg = Some (Num (real k))
          \<longrightarrow> topK (retriever (RAGPipeline_new pcfg)) = Num (real k))"
  by (simp add: Retriever_new_def RAGPipeline_new_def)

theorem zero_config_replaced_by_default_witness:
  "similarityThreshold (Retriever_new (retriever_config stub_model (Some (Num 0)) (Some (Num 0)))) = Num 0.7
   \<and> topK (Retriever_new (retriever_config stub_model (Some (Num 0)) (Some (Num 0)))) = Num 5
   \<and> similarityThreshold (Retriever_new (retriever_config stub_model (Some (Num 3)) (Some (Num 0.75)))) = Num 0.75
   \<and> topK (Retriever_new (retriever_config stub_model (Some (Num 3)) (Some (Num 0.75)))) = Num 3
   \<and> similarityThreshold (retriever (RAGPipeline_new (pipeline_config (Some (Num 0)) (Some (Num 0))))) = Num 0.7
   \<and> topK (retriever (RAGPipeline_new (pipeline_config (Some (Num 0)) (Some (Num 0))))) = Num 5
   \<and> similarityThreshold (retriever (RAGPipeline_new (pipeline_config (Some (Num 3)) (Some (Num 0.75))))) = Num 0.75
   \<and> topK (retriever (RAGPipeline_new (pipeline_config (Some (Num 3)) (Some (Num 0.75))))) = Num 3"
proof -
  have k3: "Num 3 = Num (real (3::nat))" by simp
  note z = zero_config_replaced_by_default
    [of "retriever_config stub_model (Some (Num 0)) (Some (Num 0))"
        "pipeline_config (Some (Num 0)) (Some (Num 0))"]
  note n = zero_config_replaced_by_default
    [of "retriever_config stub_model (Some (Num 3)) (Some (Num 0.75))"
        "pipeline_config (Some (Num 3)) (Some (Num 0.75))"]
  have cfg: "cfg_similarityThreshold (retriever_config em k t) = t"
            "cfg_topK (retriever_config em k t) = k"
            "cfg_retrieverSimilarityThreshold (pipeline_config k t) = t"
            "cfg_retrieverTopK (pipeline_config k t) = k" for em k t
    by (simp_all add: retriever_config_def pipeline_config_def)
  from z have z': "similarityThreshold (Retriever_new (retriever_config stub_model (Some (Num 0)) (Some (Num 0)))) = Num 0.7
     \<and> topK (Retriever_new (retriever_config stub_model (Some (Num 0)) (Some (Num 0)))) = Num 5
     \<and> similarityThreshold (retriever (RAGPipeline_new (pipeline_config (Some (Num 0)) (Some (Num 0))))) = Num 0.7
     \<and> topK (retriever (RAGPipeline_new (pipeline_config (Some (Num 0)) (Some (Num 0))))) = Num 5"
    by (simp add: cfg)
  from n have t: "similarityThreshold (Retriever_new (retriever_config stub_model (Some (Num 3)) (Some (Num 0.75)))) = Num 0.75
     \<and> similarityThreshold (retriever (RAGPipeline_new (pipeline_config (Some (Num 3)) (Some (Num 0.75))))) = Num 0.75"
    by (simp add: cfg)
  from n have "topK (Retriever_new (retriever_config stub_model (Some (Num 3)) (Some (Num 0.75)))) = Num (real (3::nat))
     \<and> topK (retriever (RAGPipeline_new (pipeline_config (Some (Num 3)) (Some (Num 0.75))))) = Num (real (3::nat))"
    by (simp only: cfg k3) simp
  with z' t show ?thesis by simp
qed

section \<open>The in-memory similarity search\<close>

lemma memory_store_constructed:
  "VectorStore_new connect placeholder in_memory (Some stub_model) = Inr memory_store"
  by (simp add: VectorStore_new_def memory_store_def)

lemma compass_state_store:
  "inMemoryStore (vectorStore compass_state) = Some [(''east'', 10), (''north'', 11)]"
  by (simp add: compass_state_def addDocuments_def embed_missing_def docsToEmbed_def
      fresh_state_def memory_store_def doc_east_def doc_north_def Map_new_def)

lemma compass_state_heap:
  "heap compass_state 10 = doc_east" "heap compass_state 11 = doc_north"
  by (simp_all add: compass_state_def addDocuments_def embed_missing_def docsToEmbed_def
      fresh_state_def memory_store_def doc_east_def doc_north_def Map_new_def)

lemma compass_state_config: "config (vectorStore compass_state) = in_memory"
  by (simp add: compass_state_def addDocuments_def embed_missing_def docsToEmbed_def
      fresh_state_def memory_store_def doc_east_def doc_north_def Map_new_def)

lemma similaritySearch_in_memory_query_independent:
  "config (vectorStore s) = in_memory \<Longrightarrow>
     similaritySearch q k s = similaritySearch q' k s"
  by (simp add: similaritySearch_def)

lemma length_slice0_le:
  "1 \<le> k \<Longrightarrow> length (slice0 xs (Num k)) \<le> nat \<lfloor>k\<rfloor>"
  by (simp add: slice0_def)

text \<open>
  C1. The in-memory \<open>similaritySearch\<close> computes no similarity: on a store holding a
  document with embedding \<open>(1, 0)\<close> and then one with embedding \<open>(0, 1)\<close>, the query
  \<open>(0, 1)\<close> with \<open>topK = 1\<close> returns the first, whose cosine similarity to the query is 0,
  and not the second, whose cosine similarity is 1; with \<open>topK = 2\<close> it returns both in
  insertion order, by increasing similarity, and neither carries a \<open>similarity\<close>.
\<close>

theorem similaritySearch_placeholder_ignores_query:
  "fst (similaritySearch [Num 0, Num 1] (Num 1) compass_state) = Inr [doc_east]
   \<and> fst (similaritySearch [Num 0, Num 1] (Num 2) compass_state) = Inr [doc_east, doc_north]
   \<and> embedding doc_east = Some (map Num [1, 0])
   \<and> embedding doc_north = Some (map Num [0, 1])
   \<and> spec_cosine [0, 1] [1, 0] = 0
   \<and> spec_cosine [0, 1] [0, 1] = 1
   \<and> similarity doc_east = None \<and> similarity doc_north = None"
proof -
  have s1: "fst (similaritySearch [Num 0, Num 1] (Num 1) compass_state) = Inr [doc_east]"
    by (simp add: similaritySearch_def compass_state_config compass_state_store
        compass_state_heap Map_values_def slice0_def)
  have s2: "fst (similaritySearch [Num 0, Num 1] (Num 2) compass_state) = Inr [doc_east, doc_north]"
    by (simp add: similaritySearch_def compass_state_config compass_state_store
        compass_state_heap Map_values_def slice0_def)
  have c: "spec_cosine [0, 1] [1, 0] = 0" "spec_cosine [0, 1] [0, 1] = 1"
    by (simp_all add: spec_cosine_def dot_def)
  show ?thesis using s1 s2 c by (simp add: doc_east_def doc_north_def)
qed

section \<open>Retriever.retrieve\<close>

lemma js_ge_not_lt: "js_ge a b \<Longrightarrow> \<not> js_lt a b"
  by (cases a; cases b) simp_all

lemma similaritySearch_logs:
  "embed_calls (snd (similaritySearch qe k s)) = embed_calls s"
  "generate_calls (snd (similaritySearch qe k s)) = generate_calls s"
  "heap (snd (similaritySearch qe k s)) = heap s"
  "vectorStore (snd (similaritySearch qe k s)) = vectorStore s"
  by (simp_all add: similaritySearch_def Let_def split: VectorStoreConfig.splits option.splits sum.splits)

lemma retrieve_generate_calls:
  "generate_calls (snd (retrieve r q s)) = generate_calls s"
proof (cases "generateEmbeddings (embeddingModel_r r) [q]")
  case (Inl e)
  then show ?thesis by (simp add: retrieve_def)
next
  case (Inr embs)
  show ?thesis
  proof (cases embs)
    case Nil
    with Inr show ?thesis by (simp add: retrieve_def)
  next
    case (Cons qe rest)
    obtain res s2 where ss: "similaritySearch qe (topK r) (s\<lparr>embed_calls := embed_calls s @ [[q]]\<rparr>) = (res, s2)"
      by (cases "similaritySearch qe (topK r) (s\<lparr>embed_calls := embed_calls s @ [[q]]\<rparr>)")
    have "generate_calls s2 = generate_calls s"
      using similaritySearch_logs(2) [of qe "topK r" "s\<lparr>embed_calls := embed_calls s @ [[q]]\<rparr>"] ss
      by simp
    with Inr Cons ss show ?thesis
      by (cases res) (simp_all add: retrieve_def)
  qed
qed

lemma isRelevant_iff:
  "isRelevant t d = (similarity d = None \<or> (\<exists>sim. similarity d = Some sim \<and> js_ge sim t))"
  by (cases "similarity d") (simp_all add: isRelevant_def)

lemma retrieve_returns_relevant:
  assumes "fst (retrieve r q s) = Inr docs"
  shows "\<forall>d \<in> set docs. isRelevant (similarityThreshold r) d"
proof (cases "generateEmbeddings (embeddingModel_r r) [q]")
  case (Inl e)
  with assms show ?thesis by (simp add: retrieve_def)
next
  case (Inr embs)
  show ?thesis
  proof (cases embs)
    case Nil
    with Inr assms show ?thesis by (auto simp: retrieve_def)
  next
    case (Cons qe rest)
    obtain res s2 where ss:
      "similaritySearch qe (topK r) (s\<lparr>embed_calls := embed_calls s @ [[q]]\<rparr>) = (res, s2)"
      by (cases "similaritySearch qe (topK r) (s\<lparr>embed_calls := embed_calls s @ [[q]]\<rparr>)")
    with Inr Cons assms show ?thesis
      by (cases res) (auto simp: retrieve_def)
  qed
qed

lemma retrieve_filters_by_threshold_field:
  "(generateEmbeddings (embeddingModel_r r) [q] = Inr (qe # rest)
      \<and> similaritySearch qe (topK r) (s\<lparr>embed_calls := embed_calls s @ [[q]]\<rparr>) = (Inr found, s')
    \<longrightarrow> retrieve r q s =
          (Inr (filter (\<lambda>d. similarity d = None
                           \<or> (\<exists>sim. similarity d = Some sim \<and> js_ge sim (similarityThreshold r)))
                  found), s'))
   \<and> (\<forall>docs. fst (retrieve r q s) = Inr docs \<longrightarrow>
         (\<forall>d \<in> set docs. \<forall>sim. similarity d = Some sim \<longrightarrow>
            js_ge sim (similarityThreshold r) \<and> \<not> js_lt sim (similarityThreshold r)))"
proof -
  have pred: "isRelevant t =
      (\<lambda>d. similarity d = None \<or> (\<exists>sim. similarity d = Some sim \<and> js_ge sim t))" for t
    by (simp add: fun_eq_iff isRelevant_iff)
  have eq: "retrieve r q s =
           (Inr (filter (\<lambda>d. similarity d = None
                            \<or> (\<exists>sim. similarity d = Some sim \<and> js_ge sim (similarityThreshold r)))
                   found), s')"
    if "generateEmbeddings (embeddingModel_r r) [q] = Inr (qe # rest)"
      and "similaritySearch qe (topK r) (s\<lparr>embed_calls := embed_calls s @ [[q]]\<rparr>) = (Inr found, s')"
    using that by (simp add: retrieve_def pred)
  have never: "js_ge sim (similarityThreshold r) \<and> \<not> js_lt sim (similarityThreshold r)"
    if "fst (retrieve r q s) = Inr docs" "d \<in> set docs" "similarity d = Some sim" for docs d sim
  proof -
    from retrieve_returns_relevant [OF that(1)] that(2)
    have "isRelevant (similarityThreshold r) d" by blast
    with that(3) have "js_ge sim (similarityThreshold r)"
      by (simp add: isRelevant_iff)
    then show ?thesis by (simp add: js_ge_not_lt)
  qed
  from eq never show ?thesis by blast
qed

text \<open>
  C2. The threshold \<open>retrieve\<close> compares with is the private field set by the constructor,
  and the constructor's \<open>config.similarityThreshold || 0.7\<close> takes a configured 0 for an
  absent value. With the threshold configured as 0 (inside the range \<open>(0-1)\<close> that the
  configuration interface documents), a search result with similarities 0.9, 0.7, 0.5 and
  none is cut to the first, second and fourth document: the third, whose similarity 0.5 is
  \<open>>=\<close> the configured 0, is dropped, as it would be under a threshold of 0.7. So the result
  is not the set of documents with no similarity or similarity \<open>>=\<close> the configured threshold.
\<close>

theorem retrieve_zero_threshold_filters_at_default:
  "cfg_similarityThreshold (retriever_config stub_model (Some (Num 5)) (Some (Num 0))) = Some (Num 0)
   \<and> fst (similaritySearch [Num 13, Num 1] (Num 5)
            (astra_state\<lparr>embed_calls := embed_calls astra_state @ [[''which letter?'']]\<rparr>))
       = Inr [\<lparr>doc_id = ''a'', content = ''alpha'', metadata = None, embedding = None,
                similarity = Some (Num 0.9)\<rparr>,
              \<lparr>doc_id = ''b'', content = ''beta'', metadata = None, embedding = None,
                similarity = Some (Num 0.7)\<rparr>,
              \<lparr>doc_id = ''c'', content = ''gamma'', metadata = None, embedding = None,
                similarity = Some (Num 0.5)\<rparr>,
              \<lparr>doc_id = ''d'', content = ''delta'', metadata = None, embedding = None,
                similarity = None\<rparr>]
   \<and> js_ge (Num 0.5) (Num 0)
   \<and> fst (retrieve (Retriever_new (retriever_config stub_model (Some (Num 5)) (Some (Num 0))))
            ''which letter?'' astra_state)
       = Inr [\<lparr>doc_id = ''a'', content = ''alpha'', metadata = None, embedding = None,
                similarity = Some (Num 0.9)\<rparr>,
              \<lparr>doc_id = ''b'', content = ''beta'', metadata = None, embedding = None,
                similarity = Some (Num 0.7)\<rparr>,
              \<lparr>doc_id = ''d'', content = ''delta'', metadata = None, embedding = None,
                similarity = None\<rparr>]
   \<and> fst (retrieve (Retriever_new (retriever_config stub_model (Some (Num 5)) (Some (Num 0))))
            ''which letter?'' astra_state)
       = fst (retrieve (Retriever_new (retriever_config stub_model (Some (Num 5)) (Some (Num 0.7))))
            ''which letter?'' astra_state)"
proof -
  have cfg: "cfg_similarityThreshold (retriever_config stub_model (Some (Num 5)) (Some (Num 0)))
      = Some (Num 0)"
    by (simp add: retriever_config_def)
  have srch: "fst (similaritySearch [Num 13, Num 1] (Num 5)
            (astra_state\<lparr>embed_calls := embed_calls astra_state @ [[''which letter?'']]\<rparr>))
       = Inr [\<lparr>doc_id = ''a'', content = ''alpha'', metadata = None, embedding = None,
                similarity = Some (Num 0.9)\<rparr>,
              \<lparr>doc_id = ''b'', content = ''beta'', metadata = None, embedding = None,
                similarity = Some (Num 0.7)\<rparr>,
              \<lparr>doc_id = ''c'', content = ''gamma'', metadata = None, embedding = None,
                similarity = Some (Num 0.5)\<rparr>,
              \<lparr>doc_id = ''d'', content = ''delta'', metadata = None, embedding = None,
                similarity = None\<rparr>]"
    by (simp add: similaritySearch_def astra_state_def fresh_state_def astra_store_def
        scored_rows_def fromAstraRow_def)
  have ge: "js_ge (Num 0.5) (Num 0)"
    by simp
  have res: "fst (retrieve (Retriever_new (retriever_config stub_model (Some (Num 5)) (Some (Num t))))
            ''which letter?'' astra_state)
       = Inr [\<lparr>doc_id = ''a'', content = ''alpha'', metadata = None, embedding = None,
                similarity = Some (Num 0.9)\<rparr>,
              \<lparr>doc_id = ''b'', content = ''beta'', metadata = None, embedding = None,
                similarity = Some (Num 0.7)\<rparr>,
              \<lparr>doc_id = ''d'', content = ''delta'', metadata = None, embedding = None,
                similarity = None\<rparr>]"
    if "t = 0 \<or> t = 0.7" for t :: real
    using that
    by (auto simp: retrieve_def Retriever_new_def retriever_config_def stub_model_def
        similaritySearch_def astra_state_def fresh_state_def astra_store_def scored_rows_def
        fromAstraRow_def isRelevant_def)
  from cfg srch ge res [of 0] res [of "0.7"] show ?thesis
    by simp
qed

lemma retrieve_embedding_cases:
  "(generateEmbeddings (embeddingModel_r r) [q] = Inr [] \<longrightarrow>
      retrieve r q s = (Inr [], s\<lparr>embed_calls := embed_calls s @ [[q]]\<rparr>))
   \<and> (generateEmbeddings (embeddingModel_r r) [q] = Inl e \<longrightarrow>
      retrieve r q s = (Inl e, s\<lparr>embed_calls := embed_calls s @ [[q]]\<rparr>))"
  by (simp add: retrieve_def)

text \<open>
  C4. \<open>Retriever.retrieve\<close> turns a failed query embedding into the empty sequence only
  when the provider resolves to an empty array: that is the branch that logs
  \<open>Failed to generate query embedding.\<close> and returns \<open>[]\<close>. The \<open>await\<close> before it stands in
  no \<open>try\<close>, so with a provider that rejects (here with \<open>429 rate limit\<close>) \<open>retrieve\<close>
  rejects with the provider's error and does not return the empty sequence.
\<close>

theorem retrieve_propagates_embedding_error:
  "generateEmbeddings (embeddingModel_r (Retriever_new (retriever_config empty_model None None)))
     [''anything?''] = Inr []
   \<and> fst (retrieve (Retriever_new (retriever_config empty_model None None)) ''anything?''
            empty_memory_state) = Inr []
   \<and> generateEmbeddings (embeddingModel_r (Retriever_new (retriever_config failing_model None None)))
     [''anything?''] = Inl (Error ''429 rate limit'')
   \<and> fst (retrieve (Retriever_new (retriever_config failing_model None None)) ''anything?''
            empty_memory_state) = Inl (Error ''429 rate limit'')
   \<and> fst (retrieve (Retriever_new (retriever_config failing_model None None)) ''anything?''
            empty_memory_state) \<noteq> Inr []"
  by (simp add: retrieve_def Retriever_new_def retriever_config_def failing_model_def
      empty_model_def)

section \<open>RAGPipeline.query without context\<close>

text \<open>
  C3. When \<open>Retriever.retrieve\<close> returns the empty sequence, \<open>RAGPipeline.query\<close> returns the
  fixed text with \<open>sourceDocuments = []\<close> and the \<open>finishReason\<close> \<open>no_context\<close>, and makes
  no call to \<open>LLM.generate\<close>: the log of generator calls is the one before the query, and
  the state is the one \<open>retrieve\<close> left.
\<close>

theorem query_no_context_skips_generator:
  assumes "fst (retrieve (retriever p) q s) = Inr []"
  shows "fst (query p q s) =
           Inr \<lparr>response_text = ''I couldn't find any specific information related to your query in my current knowledge base.'',
                sourceDocuments = Some [],
                response_metadata = Some \<lparr>finishReason = Some ''no_context'', tokenUsage = None\<rparr>\<rparr>
         \<and> generate_calls (snd (query p q s)) = generate_calls s
         \<and> snd (query p q s) = snd (retrieve (retriever p) q s)"
proof -
  obtain s1 where r: "retrieve (retriever p) q s = (Inr [], s1)"
    using assms by (cases "retrieve (retriever p) q s") simp
  have q: "query p q s = (Inr no_context_response, s1)"
    by (simp add: query_def r)
  have "generate_calls s1 = generate_calls s"
    using retrieve_generate_calls [of "retriever p" q s] r by simp
  then show ?thesis
    by (simp add: q r no_context_response_def)
qed

theorem query_no_context_skips_generator_witness:
  "fst (retrieve (retriever (RAGPipeline_new (pipeline_config None None))) ''anything?'' empty_memory_state)
     = Inr []
   \<and> fst (query (RAGPipeline_new (pipeline_config None None)) ''anything?'' empty_memory_state)
     = Inr no_context_response
   \<and> generate_calls (snd (query (RAGPipeline_new (pipeline_config None None)) ''anything?'' empty_memory_state))
     = []"
proof -
  let ?p = "RAGPipeline_new (pipeline_config None None)"
  have r: "fst (retrieve (retriever ?p) ''anything?'' empty_memory_state) = Inr []"
    by (simp add: retrieve_def RAGPipeline_new_def Retriever_new_def pipeline_config_def
        stub_model_def similaritySearch_def empty_memory_state_def fresh_state_def
        memory_store_def Map_new_def Map_values_def slice0_def)
  have g: "generate_calls empty_memory_state = []"
    by (simp add: empty_memory_state_def fresh_state_def)
  note th = query_no_context_skips_generator [OF r]
  from th have a: "fst (query ?p ''anything?'' empty_memory_state) = Inr no_context_response"
    unfolding no_context_response_def by (rule conjunct1)
  from th have b: "generate_calls (snd (query ?p ''anything?'' empty_memory_state))
      = generate_calls empty_memory_state"
    by (elim conjE)
  from r a b g show ?thesis by simp
qed

section \<open>VectorStore.addDocuments: embedding the batch\<close>

lemma forEach_assign_other:
  "r \<notin> set docs \<Longrightarrow> forEach_assign docs i E h r = h r"
  by (induction docs arbitrary: i h) auto

lemma forEach_assign_frame:
  "doc_id (forEach_assign docs i E h r) = doc_id (h r)
   \<and> content (forEach_assign docs i E h r) = content (h r)
   \<and> metadata (forEach_assign docs i E h r) = metadata (h r)
   \<and> similarity (forEach_assign docs i E h r) = similarity (h r)"
proof (induction docs arbitrary: i h)
  case Nil
  show ?case by simp
next
  case (Cons d ds)
  show ?case
    by (simp add: Cons.IH [of "Suc i" "h(d := (h d)\<lparr>embedding := at_index E i\<rparr>)"])
qed

lemma forEach_assign_last_write:
  "j < length docs \<Longrightarrow> (\<forall>k. j < k \<and> k < length docs \<longrightarrow> docs ! k \<noteq> docs ! j) \<Longrightarrow>
     forEach_assign docs i E h (docs ! j) = (h (docs ! j))\<lparr>embedding := at_index E (i + j)\<rparr>"
proof (induction docs arbitrary: i h j)
  case Nil
  then show ?case by simp
next
  case (Cons d ds)
  let ?h = "h(d := (h d)\<lparr>embedding := at_index E i\<rparr>)"
  show ?case
  proof (cases j)
    case 0
    have "d \<notin> set ds"
    proof
      assume "d \<in> set ds"
      then obtain k where "k < length ds" "ds ! k = d"
        by (auto simp: in_set_conv_nth)
      with Cons.prems(2) 0 show False
        by (auto dest: spec [of _ "Suc k"])
    qed
    then have "forEach_assign ds (Suc i) E ?h d = ?h d"
      by (rule forEach_assign_other)
    with 0 show ?thesis by simp
  next
    case (Suc j')
    have lt: "j' < length ds" using Cons.prems(1) Suc by simp
    have later: "\<forall>k. j' < k \<and> k < length ds \<longrightarrow> ds ! k \<noteq> ds ! j'"
    proof (intro allI impI)
      fix k assume "j' < k \<and> k < length ds"
      with Cons.prems(2) [rule_format, of "Suc k"] Suc show "ds ! k \<noteq> ds ! j'"
        by simp
    qed
    have "forEach_assign ds (Suc i) E ?h (ds ! j') = (?h (ds ! j'))\<lparr>embedding := at_index E (Suc i + j')\<rparr>"
      by (rule Cons.IH [OF lt later])
    also have "\<dots> = (h (ds ! j'))\<lparr>embedding := at_index E (Suc i + j')\<rparr>"
      by simp
    finally show ?thesis using Suc by simp
  qed
qed

lemma docsToEmbed_Nil: "docsToEmbed h [] = []"
  by (simp add: docsToEmbed_def)

lemma embed_missing_Nil: "embed_missing [] s = (Inr (), s)"
  by (simp add: embed_missing_def docsToEmbed_Nil)

lemma embed_missing_heap:
  "heap (snd (embed_missing documents s)) =
     (case generateEmbeddings (embeddingModel (vectorStore s))
             (map (\<lambda>d. content (heap s d)) (docsToEmbed (heap s) documents)) of
        Inl e \<Rightarrow> heap s
      | Inr E \<Rightarrow> forEach_assign (docsToEmbed (heap s) documents) 0 E (heap s))"
  by (simp add: embed_missing_def Let_def split: sum.splits)

lemma embed_missing_embed_calls:
  "embed_calls (snd (embed_missing documents s)) =
     embed_calls s @
       (if docsToEmbed (heap s) documents = [] then []
        else [map (\<lambda>d. content (heap s d)) (docsToEmbed (heap s) documents)])"
  by (simp add: embed_missing_def Let_def split: sum.splits)

lemma embed_missing_store:
  "vectorStore (snd (embed_missing documents s)) = vectorStore s"
  by (simp add: embed_missing_def Let_def split: sum.splits)

lemma addDocuments_heap:
  "heap (snd (addDocuments documents s)) = heap (snd (embed_missing documents s))"
proof (cases "documents = []")
  case True
  then show ?thesis by (simp add: addDocuments_def embed_missing_Nil)
next
  case False
  obtain res s1 where em: "embed_missing documents s = (res, s1)"
    by (cases "embed_missing documents s")
  show ?thesis
    using False
    by (simp add: addDocuments_def em Let_def
        split: sum.splits VectorStoreConfig.splits option.splits)
qed

lemma addDocuments_embed_calls:
  "embed_calls (snd (addDocuments documents s)) = embed_calls (snd (embed_missing documents s))"
proof (cases "documents = []")
  case True
  then show ?thesis by (simp add: addDocuments_def embed_missing_Nil)
next
  case False
  obtain res s1 where em: "embed_missing documents s = (res, s1)"
    by (cases "embed_missing documents s")
  show ?thesis
    using False
    by (simp add: addDocuments_def em Let_def
        split: sum.splits VectorStoreConfig.splits option.splits)
qed

lemma mixed_state_toEmbed:
  "filter (\<lambda>d. embedding (heap mixed_state d) = None \<and> content (heap mixed_state d) \<noteq> [])
     [20, 21, 23, 22] = [20, 22]"
  by (simp add: mixed_state_def fresh_state_def mixed_heap_def)

lemma mixed_state_embeddings:
  "generateEmbeddings (embeddingModel (vectorStore mixed_state))
     (map (\<lambda>d. content (heap mixed_state d)) [20, 22]) = Inr [[Num 2, Num 1], [Num 4, Num 1]]"
  by (simp add: mixed_state_def fresh_state_def mixed_heap_def memory_store_def stub_model_def)

lemma two_refs_last:
  "a \<noteq> b \<Longrightarrow> \<forall>j. i < j \<and> j < length [a, b] \<longrightarrow> [a, b] ! j \<noteq> [a, b] ! i"
  by (auto simp: nth_Cons' less_Suc_eq)

text \<open>
  C5. One call of \<open>VectorStore.addDocuments\<close> invokes \<open>generateEmbeddings\<close> at most once:
  exactly once, with the contents of the documents that lack an embedding and have
  non-empty content, in input order, when there is such a document, and not at all when there
  is none. When the call resolves, the document at position \<open>i\<close> of that batch holds the
  vector at position \<open>i\<close> of the result (\<open>undefined\<close> when the result is shorter); for an
  object that stands in the batch more than once, its last position counts.
\<close>

theorem addDocuments_embeds_once:
  fixes documents :: "ref list" and s :: State
  defines "toEmbed \<equiv> filter (\<lambda>d. embedding (heap s d) = None \<and> content (heap s d) \<noteq> '''') documents"
  defines "s' \<equiv> snd (addDocuments documents s)"
  shows "embed_calls s' =
           embed_calls s @ (if toEmbed = [] then [] else [map (\<lambda>d. content (heap s d)) toEmbed])
         \<and> length (embed_calls s') \<le> length (embed_calls s) + 1
         \<and> (\<forall>E. generateEmbeddings (embeddingModel (vectorStore s))
                   (map (\<lambda>d. content (heap s d)) toEmbed) = Inr E \<longrightarrow>
              (\<forall>i. i < length toEmbed \<and> (\<forall>j. i < j \<and> j < length toEmbed \<longrightarrow> toEmbed ! j \<noteq> toEmbed ! i)
                 \<longrightarrow> embedding (heap s' (toEmbed ! i)) = at_index E i))"
proof -
  have te: "docsToEmbed (heap s) documents = toEmbed"
    by (simp add: docsToEmbed_def toEmbed_def)
  have calls: "embed_calls s' =
      embed_calls s @ (if toEmbed = [] then [] else [map (\<lambda>d. content (heap s d)) toEmbed])"
    by (simp add: s'_def addDocuments_embed_calls embed_missing_embed_calls te)
  have bound: "length (embed_calls s') \<le> length (embed_calls s) + 1"
    by (simp add: calls)
  have assign: "embedding (heap s' (toEmbed ! i)) = at_index E i"
    if gen: "generateEmbeddings (embeddingModel (vectorStore s))
               (map (\<lambda>d. content (heap s d)) toEmbed) = Inr E"
      and i: "i < length toEmbed"
      and last: "\<forall>j. i < j \<and> j < length toEmbed \<longrightarrow> toEmbed ! j \<noteq> toEmbed ! i"
    for E i
  proof -
    have "heap s' = forEach_assign toEmbed 0 E (heap s)"
      by (simp add: s'_def addDocuments_heap embed_missing_heap te gen)
    then show ?thesis
      using forEach_assign_last_write [OF i last, of 0 E "heap s"] by simp
  qed
  from calls bound assign show ?thesis by blast
qed

theorem addDocuments_embeds_once_witness:
  "embed_calls (snd (addDocuments [20, 21, 23, 22] mixed_state)) = [[''aa'', ''cccc'']]
   \<and> embedding (heap (snd (addDocuments [20, 21, 23, 22] mixed_state)) 20) = Some [Num 2, Num 1]
   \<and> embedding (heap (snd (addDocuments [20, 21, 23, 22] mixed_state)) 22) = Some [Num 4, Num 1]"
proof -
  let ?s' = "snd (addDocuments [20, 21, 23, 22] mixed_state)"
  note th = addDocuments_embeds_once [of "[20, 21, 23, 22]" mixed_state, unfolded mixed_state_toEmbed]
  have e0: "embed_calls mixed_state = []"
    by (simp add: mixed_state_def fresh_state_def)
  have cont: "map (\<lambda>d. content (heap mixed_state d)) [20, 22] = [''aa'', ''cccc'']"
    by (simp add: mixed_state_def fresh_state_def mixed_heap_def)
  from th have "embed_calls ?s' = embed_calls mixed_state @ [map (\<lambda>d. content (heap mixed_state d)) [20, 22]]"
    by simp
  then have calls: "embed_calls ?s' = [[''aa'', ''cccc'']]"
    by (simp only: e0 cont append_Nil)
  from th mixed_state_embeddings
  have assign: "i < length [20, 22 :: nat] \<and> (\<forall>j. i < j \<and> j < length [20, 22 :: nat] \<longrightarrow> [20, 22 :: nat] ! j \<noteq> [20, 22] ! i)
      \<longrightarrow> embedding (heap ?s' ([20, 22] ! i)) = at_index [[Num 2, Num 1], [Num 4, Num 1]] i" for i
    by blast
  have a0: "embedding (heap ?s' 20) = Some [Num 2, Num 1]"
    using assign [of 0] two_refs_last [of 20 22 0] by (simp add: at_index_def)
  have a1: "embedding (heap ?s' 22) = Some [Num 4, Num 1]"
    using assign [of 1] two_refs_last [of 20 22 1] by (simp add: at_index_def)
  from calls a0 a1 show ?thesis by simp
qed

text \<open>
  C9. \<open>VectorStore.addDocuments\<close> writes to the caller's objects: after the call, the object
  at each reference of the batch to embed is the object it was with only \<open>embedding\<close>
  replaced by the generated vector, no object changes in \<open>id\<close>, \<open>content\<close>, \<open>metadata\<close> or
  \<open>similarity\<close>, and every object outside the batch is what it was.
\<close>

theorem addDocuments_mutates_in_place:
  fixes documents :: "ref list" and s :: State
  defines "toEmbed \<equiv> filter (\<lambda>d. embedding (heap s d) = None \<and> content (heap s d) \<noteq> '''') documents"
  defines "h' \<equiv> heap (snd (addDocuments documents s))"
  shows "(\<forall>r. doc_id (h' r) = doc_id (heap s r) \<and> content (h' r) = content (heap s r)
              \<and> metadata (h' r) = metadata (heap s r) \<and> similarity (h' r) = similarity (heap s r))
         \<and> (\<forall>r. r \<notin> set toEmbed \<longrightarrow> h' r = heap s r)
         \<and> (\<forall>E. generateEmbeddings (embeddingModel (vectorStore s))
                   (map (\<lambda>d. content (heap s d)) toEmbed) = Inr E \<longrightarrow>
              (\<forall>i. i < length toEmbed \<and> (\<forall>j. i < j \<and> j < length toEmbed \<longrightarrow> toEmbed ! j \<noteq> toEmbed ! i)
                 \<longrightarrow> h' (toEmbed ! i) = (heap s (toEmbed ! i))\<lparr>embedding := at_index E i\<rparr>))"
proof -
  have te: "docsToEmbed (heap s) documents = toEmbed"
    by (simp add: docsToEmbed_def toEmbed_def)
  have h': "h' = (case generateEmbeddings (embeddingModel (vectorStore s))
                         (map (\<lambda>d. content (heap s d)) toEmbed) of
                    Inl e \<Rightarrow> heap s
                  | Inr E \<Rightarrow> forEach_assign toEmbed 0 E (heap s))"
    by (simp add: h'_def addDocuments_heap embed_missing_heap te cong: sum.case_cong)
  have frame: "doc_id (h' r) = doc_id (heap s r) \<and> content (h' r) = content (heap s r)
              \<and> metadata (h' r) = metadata (heap s r) \<and> similarity (h' r) = similarity (heap s r)" for r
    unfolding h' by (simp add: forEach_assign_frame split: sum.splits)
  have other: "h' r = heap s r" if "r \<notin> set toEmbed" for r
    unfolding h' using that by (simp add: forEach_assign_other split: sum.splits)
  have assign: "h' (toEmbed ! i) = (heap s (toEmbed ! i))\<lparr>embedding := at_index E i\<rparr>"
    if gen: "generateEmbeddings (embeddingModel (vectorStore s))
               (map (\<lambda>d. content (heap s d)) toEmbed) = Inr E"
      and i: "i < length toEmbed"
      and last: "\<forall>j. i < j \<and> j < length toEmbed \<longrightarrow> toEmbed ! j \<noteq> toEmbed ! i"
    for E i
    unfolding h' using forEach_assign_last_write [OF i last, of 0 E "heap s"] gen by simp
  from frame other assign show ?thesis by blast
qed

theorem addDocuments_mutates_in_place_witness:
  "heap (snd (addDocuments [20, 21, 23, 22] mixed_state)) 20 =
     \<lparr>doc_id = ''a'', content = ''aa'', metadata = None, embedding = Some [Num 2, Num 1],
      similarity = None\<rparr>
   \<and> heap (snd (addDocuments [20, 21, 23, 22] mixed_state)) 21 = heap mixed_state 21
   \<and> heap (snd (addDocuments [20, 21, 23, 22] mixed_state)) 23 = heap mixed_state 23"
proof -
  let ?h' = "heap (snd (addDocuments [20, 21, 23, 22] mixed_state))"
  note th = addDocuments_mutates_in_place [of "[20, 21, 23, 22]" mixed_state, unfolded mixed_state_toEmbed]
  from th have other: "r \<notin> set [20, 22 :: nat] \<longrightarrow> ?h' r = heap mixed_state r" for r
    by blast
  from th mixed_state_embeddings
  have assign: "i < length [20, 22 :: nat] \<and> (\<forall>j. i < j \<and> j < length [20, 22 :: nat] \<longrightarrow> [20, 22 :: nat] ! j \<noteq> [20, 22] ! i)
      \<longrightarrow> ?h' ([20, 22] ! i) = (heap mixed_state ([20, 22] ! i))\<lparr>embedding := at_index [[Num 2, Num 1], [Num 4, Num 1]] i\<rparr>" for i
    by blast
  have a0: "?h' 20 = (heap mixed_state 20)\<lparr>embedding := Some [Num 2, Num 1]\<rparr>"
    using assign [of 0] two_refs_last [of 20 22 0] by (simp add: at_index_def)
  have h20: "heap mixed_state 20 =
      \<lparr>doc_id = ''a'', content = ''aa'', metadata = None, embedding = None, similarity = None\<rparr>"
    by (simp add: mixed_state_def fresh_state_def mixed_heap_def)
  from a0 h20 other [of 21] other [of 23] show ?thesis by simp
qed

section \<open>VectorStore.addDocuments: the in-memory upsert\<close>

lemma Map_set_map_of: "map_of (Map_set k v m) = (map_of m)(k \<mapsto> v)"
  by (induction m) (auto simp: fun_eq_iff)

lemma Map_set_keys: "set (map fst (Map_set k v m)) = insert k (set (map fst m))"
  by (induction m) auto

lemma Map_set_distinct:
  "distinct (map fst m) \<Longrightarrow> distinct (map fst (Map_set k v m))"
proof (induction m)
  case Nil
  show ?case by simp
next
  case (Cons e m)
  then have d: "fst e \<notin> set (map fst m)" and dm: "distinct (map fst m)"
    by simp_all
  show ?case
  proof (cases "fst e = k")
    case True
    with d dm show ?thesis by simp
  next
    case False
    have "fst e \<notin> set (map fst (Map_set k v m))"
      using d False by (simp only: Map_set_keys) simp
    with False Cons.IH [OF dm] show ?thesis by simp
  qed
qed

lemma store_all_distinct:
  "distinct (map fst m) \<Longrightarrow> distinct (map fst (store_all h docs m))"
  by (induction docs arbitrary: m) (simp_all add: Map_set_distinct)

lemma store_all_untouched:
  "\<forall>d \<in> set docs. embedding (h d) \<noteq> None \<longrightarrow> doc_id (h d) \<noteq> k \<Longrightarrow>
     map_of (store_all h docs m) k = map_of m k"
  by (induction docs arbitrary: m) (auto simp: Map_set_map_of)

lemma store_all_latest:
  "i < length docs \<Longrightarrow> embedding (h (docs ! i)) \<noteq> None \<Longrightarrow>
   (\<forall>j. i < j \<and> j < length docs \<and> embedding (h (docs ! j)) \<noteq> None
        \<longrightarrow> doc_id (h (docs ! j)) \<noteq> doc_id (h (docs ! i))) \<Longrightarrow>
     map_of (store_all h docs m) (doc_id (h (docs ! i))) = Some (docs ! i)"
proof (induction docs arbitrary: m i)
  case Nil
  then show ?case by simp
next
  case (Cons d ds)
  show ?case
  proof (cases i)
    case 0
    have rest: "\<forall>d' \<in> set ds. embedding (h d') \<noteq> None \<longrightarrow> doc_id (h d') \<noteq> doc_id (h d)"
    proof (intro ballI impI)
      fix d' assume "d' \<in> set ds" and e: "embedding (h d') \<noteq> None"
      then obtain k where k: "k < length ds" "ds ! k = d'"
        by (auto simp: in_set_conv_nth)
      from Cons.prems(3) [rule_format, of "Suc k"] 0 k e
      show "doc_id (h d') \<noteq> doc_id (h d)" by simp
    qed
    have "map_of (store_all h ds (Map_set (doc_id (h d)) d m)) (doc_id (h d))
        = map_of (Map_set (doc_id (h d)) d m) (doc_id (h d))"
      by (rule store_all_untouched [OF rest])
    also have "\<dots> = Some d"
      by (simp add: Map_set_map_of)
    finally show ?thesis using 0 Cons.prems(2) by simp
  next
    case (Suc i')
    have lt: "i' < length ds" using Cons.prems(1) Suc by simp
    have emb: "embedding (h (ds ! i')) \<noteq> None" using Cons.prems(2) Suc by simp
    have later: "\<forall>j. i' < j \<and> j < length ds \<and> embedding (h (ds ! j)) \<noteq> None
        \<longrightarrow> doc_id (h (ds ! j)) \<noteq> doc_id (h (ds ! i'))"
    proof (intro allI impI)
      fix j assume "i' < j \<and> j < length ds \<and> embedding (h (ds ! j)) \<noteq> None"
      with Cons.prems(3) [rule_format, of "Suc j"] Suc
      show "doc_id (h (ds ! j)) \<noteq> doc_id (h (ds ! i'))" by simp
    qed
    show ?thesis
      using Suc Cons.IH [OF lt emb later] by simp
  qed
qed

lemma one_entry_per_key:
  "distinct (map fst m) \<Longrightarrow> map_of m k = Some v \<Longrightarrow> length (filter (\<lambda>e. fst e = k) m) = 1"
proof (induction m)
  case Nil
  then show ?case by simp
next
  case (Cons e m)
  show ?case
  proof (cases "fst e = k")
    case True
    with Cons.prems(1) have "k \<notin> fst ` set m"
      by simp
    then have "\<forall>e' \<in> set m. fst e' \<noteq> k"
      by blast
    then have "filter (\<lambda>e. fst e = k) m = []"
      by (simp add: filter_empty_conv)
    with True show ?thesis by simp
  next
    case False
    with Cons.prems have "distinct (map fst m)" "map_of m k = Some v"
      by (simp_all split: if_splits prod.splits) 
    from Cons.IH [OF this] False show ?thesis by simp
  qed
qed

lemma embed_missing_frame:
  "doc_id (heap (snd (embed_missing documents s)) r) = doc_id (heap s r)
   \<and> content (heap (snd (embed_missing documents s)) r) = content (heap s r)"
  by (simp add: embed_missing_heap forEach_assign_frame split: sum.splits)

lemma addDocuments_in_memory_result:
  assumes cfg: "config (vectorStore s) = in_memory"
      and st: "inMemoryStore (vectorStore s) = Some m"
      and ok: "addDocuments documents s = (Inr (), s')"
      and ne: "documents \<noteq> []"
  shows "inMemoryStore (vectorStore s') = Some (store_all (heap s') documents m)
         \<and> heap s' = heap (snd (embed_missing documents s))"
proof -
  obtain res s1 where em: "embed_missing documents s = (res, s1)"
    by (cases "embed_missing documents s")
  have vs: "vectorStore s1 = vectorStore s"
    using embed_missing_store [of documents s] em by simp
  from ok ne em obtain u where res: "res = Inr u"
    by (cases res) (simp_all add: addDocuments_def)
  from ok ne em res cfg st vs
  have "s' = s1\<lparr>vectorStore := (vectorStore s1)\<lparr>inMemoryStore := Some (store_all (heap s1) documents m)\<rparr>\<rparr>"
    by (simp add: addDocuments_def)
  then show ?thesis using em by simp
qed

lemma store_all_keys:
  "set (map fst (store_all h docs m)) =
     set (map fst m) \<union> {doc_id (h d) | d. d \<in> set docs \<and> embedding (h d) \<noteq> None}"
proof (induction docs arbitrary: m)
  case Nil
  show ?case by simp
next
  case (Cons d ds)
  show ?case
  proof (cases "embedding (h d) \<noteq> None")
    case True
    then have "set (map fst (store_all h (d # ds) m)) =
        insert (doc_id (h d)) (set (map fst m))
          \<union> {doc_id (h d') | d'. d' \<in> set ds \<and> embedding (h d') \<noteq> None}"
      by (simp add: Cons.IH Map_set_keys del: set_map)
    with True show ?thesis by auto
  next
    case False
    then have "set (map fst (store_all h (d # ds) m)) =
        set (map fst m) \<union> {doc_id (h d') | d'. d' \<in> set ds \<and> embedding (h d') \<noteq> None}"
      by (simp add: Cons.IH del: set_map)
    with False show ?thesis by auto
  qed
qed

lemma upsert_state_1_value:
  "config (vectorStore upsert_state_1) = in_memory"
  "inMemoryStore (vectorStore upsert_state_1) = Some [(''x'', 30), (''y'', 32)]"
  "heap upsert_state_1 30 =
     \<lparr>doc_id = ''x'', content = ''old'', metadata = None, embedding = Some [Num 3, Num 1],
      similarity = None\<rparr>"
  "heap upsert_state_1 31 =
     \<lparr>doc_id = ''x'', content = ''new'', metadata = None, embedding = Some [Num 7],
      similarity = None\<rparr>"
  "heap upsert_state_1 32 =
     \<lparr>doc_id = ''y'', content = ''other'', metadata = None, embedding = Some [Num 8],
      similarity = None\<rparr>"
  "embeddingModel (vectorStore upsert_state_1) = stub_model"
  by (simp_all add: upsert_state_1_def addDocuments_def embed_missing_def docsToEmbed_def
      fresh_state_def memory_store_def upsert_heap_def stub_model_def Map_new_def at_index_def)

lemma upsert_state_2_value:
  "addDocuments [31] upsert_state_1 = (Inr (), upsert_state_2)"
  "heap upsert_state_2 31 = heap upsert_state_1 31"
  "inMemoryStore (vectorStore upsert_state_2) = Some [(''x'', 31), (''y'', 32)]"
  by (simp_all add: upsert_state_2_def addDocuments_def embed_missing_def docsToEmbed_def
      upsert_state_1_value)

text \<open>
  C6. On the in-memory backend a successful \<open>addDocuments\<close> is an upsert keyed by \<open>id\<close>:
  afterwards the keys of the store are distinct, and for the last document of the call with
  a given \<open>id\<close> that carries an embedding, the store has exactly one entry for that \<open>id\<close>, the
  reference to that document, whose content is the one supplied; an earlier entry for the
  \<open>id\<close>, from this call or a previous one, is replaced. Nothing else changes: an \<open>id\<close> that no
  stored document of the call has keeps the entry it had, or stays absent, and the keys of
  the store are the keys it had and the \<open>id\<close>s of the stored documents of the call.
\<close>

theorem addDocuments_in_memory_upsert:
  assumes cfg: "config (vectorStore s) = in_memory"
      and st: "inMemoryStore (vectorStore s) = Some m"
      and dist: "distinct (map fst m)"
      and ok: "addDocuments documents s = (Inr (), s')"
      and i: "i < length documents"
      and emb: "embedding (heap s' (documents ! i)) \<noteq> None"
      and last: "\<forall>j. i < j \<and> j < length documents \<and> embedding (heap s' (documents ! j)) \<noteq> None
                   \<longrightarrow> doc_id (heap s' (documents ! j)) \<noteq> doc_id (heap s' (documents ! i))"
  shows "\<exists>m'. inMemoryStore (vectorStore s') = Some m'
            \<and> distinct (map fst m')
            \<and> length (filter (\<lambda>e. fst e = doc_id (heap s (documents ! i))) m') = 1
            \<and> Map_get m' (doc_id (heap s (documents ! i))) = Some (documents ! i)
            \<and> content (heap s' (documents ! i)) = content (heap s (documents ! i))
            \<and> (\<forall>k. (\<forall>d \<in> set documents. embedding (heap s' d) \<noteq> None \<longrightarrow> doc_id (heap s d) \<noteq> k)
                   \<longrightarrow> Map_get m' k = Map_get m k)
            \<and> set (map fst m') =
                set (map fst m)
                  \<union> {doc_id (heap s d) | d. d \<in> set documents \<and> embedding (heap s' d) \<noteq> None}"
proof -
  from i have ne: "documents \<noteq> []" by auto
  let ?m' = "store_all (heap s') documents m"
  from addDocuments_in_memory_result [OF cfg st ok ne]
  have store: "inMemoryStore (vectorStore s') = Some ?m'"
    and heap': "heap s' = heap (snd (embed_missing documents s))"
    by simp_all
  have frame: "doc_id (heap s' r) = doc_id (heap s r)" "content (heap s' r) = content (heap s r)" for r
    using embed_missing_frame [of documents s r] by (simp_all add: heap')
  have d: "distinct (map fst ?m')"
    by (rule store_all_distinct [OF dist])
  have look: "map_of ?m' (doc_id (heap s' (documents ! i))) = Some (documents ! i)"
    by (rule store_all_latest [OF i emb last])
  have one: "length (filter (\<lambda>e. fst e = doc_id (heap s' (documents ! i))) ?m') = 1"
    by (rule one_entry_per_key [OF d look])
  have others: "Map_get ?m' k = Map_get m k"
    if "\<forall>d \<in> set documents. embedding (heap s' d) \<noteq> None \<longrightarrow> doc_id (heap s d) \<noteq> k" for k
  proof -
    from that have "\<forall>d \<in> set documents. embedding (heap s' d) \<noteq> None \<longrightarrow> doc_id (heap s' d) \<noteq> k"
      by (simp add: frame)
    then show ?thesis
      unfolding Map_get_def by (rule store_all_untouched)
  qed
  have keys: "set (map fst ?m') =
      set (map fst m) \<union> {doc_id (heap s d) | d. d \<in> set documents \<and> embedding (heap s' d) \<noteq> None}"
    by (simp only: store_all_keys frame)
  from one look have one': "length (filter (\<lambda>e. fst e = doc_id (heap s (documents ! i))) ?m') = 1"
    and look': "Map_get ?m' (doc_id (heap s (documents ! i))) = Some (documents ! i)"
    by (simp_all add: frame Map_get_def)
  from store d one' look' frame(2) [of "documents ! i"] others keys show ?thesis
    by blast
qed

theorem addDocuments_in_memory_upsert_witness:
  "inMemoryStore (vectorStore upsert_state_1) = Some [(''x'', 30), (''y'', 32)]
   \<and> content (heap upsert_state_1 30) = ''old''
   \<and> (\<exists>m'. inMemoryStore (vectorStore upsert_state_2) = Some m'
          \<and> length (filter (\<lambda>e. fst e = ''x'') m') = 1
          \<and> Map_get m' ''x'' = Some 31
          \<and> Map_get m' ''y'' = Some 32
          \<and> set (map fst m') = {''x'', ''y''})
   \<and> content (heap upsert_state_2 31) = ''new''"
proof -
  have dist: "distinct (map fst [(''x'', 30 :: nat), (''y'', 32)])" by simp
  have i: "0 < length [31 :: nat]" by simp
  have emb: "embedding (heap upsert_state_2 ([31] ! 0)) \<noteq> None"
    by (simp add: upsert_state_2_value upsert_state_1_value)
  have last: "\<forall>j. 0 < j \<and> j < length [31 :: nat] \<and> embedding (heap upsert_state_2 ([31] ! j)) \<noteq> None
      \<longrightarrow> doc_id (heap upsert_state_2 ([31] ! j)) \<noteq> doc_id (heap upsert_state_2 ([31] ! 0))"
    by auto
  from addDocuments_in_memory_upsert
    [OF upsert_state_1_value(1) upsert_state_1_value(2) dist upsert_state_2_value(1) i emb last]
  obtain m' where m': "inMemoryStore (vectorStore upsert_state_2) = Some m'"
      and one: "length (filter (\<lambda>e. fst e = ''x'') m') = 1"
      and x: "Map_get m' ''x'' = Some 31"
      and others: "\<forall>k. (\<forall>d \<in> set [31 :: nat]. embedding (heap upsert_state_2 d) \<noteq> None
                            \<longrightarrow> doc_id (heap upsert_state_1 d) \<noteq> k)
                     \<longrightarrow> Map_get m' k = Map_get [(''x'', 30), (''y'', 32)] k"
      and keys: "set (map fst m') =
          set (map fst [(''x'', 30 :: nat), (''y'', 32)])
            \<union> {doc_id (heap upsert_state_1 d) | d. d \<in> set [31 :: nat]
                  \<and> embedding (heap upsert_state_2 d) \<noteq> None}"
    by (auto simp: upsert_state_1_value)
  from others [rule_format, of "''y''"] have y: "Map_get m' ''y'' = Some 32"
    by (simp add: upsert_state_1_value Map_get_def)
  from keys have ks: "set (map fst m') = {''x'', ''y''}"
    by (auto simp: upsert_state_1_value upsert_state_2_value)
  from m' one x y ks
  have "\<exists>m'. inMemoryStore (vectorStore upsert_state_2) = Some m'
          \<and> length (filter (\<lambda>e. fst e = ''x'') m') = 1
          \<and> Map_get m' ''x'' = Some 31
          \<and> Map_get m' ''y'' = Some 32
          \<and> set (map fst m') = {''x'', ''y''}"
    by blast
  then show ?thesis
    by (simp add: upsert_state_1_value upsert_state_2_value)
qed

end
